theory Spec2Isabelle
  imports Main "HOL-Library.AList" "HOL-Library.Sublist"
begin

section \<open>Python strings\<close>

text \<open>
  A Python \<open>str\<close> is a sequence of Unicode code points; a code point is a natural
  number. \<open>lit\<close> turns an ASCII literal into such a sequence.
\<close>

type_synonym str = "nat list"

definition lit :: "string \<Rightarrow> str" where
  "lit cs = map of_char cs"

text \<open>The code points that \<open>str.strip()\<close> removes (those of \<open>str.isspace\<close>).\<close>

definition isspace :: "nat \<Rightarrow> bool" where
  "isspace c \<longleftrightarrow>
     (9 \<le> c \<and> c \<le> 13) \<or> (28 \<le> c \<and> c \<le> 32) \<or> c = 133 \<or> c = 160 \<or> c = 5760 \<or>
     (8192 \<le> c \<and> c \<le> 8202) \<or> c = 8232 \<or> c = 8233 \<or> c = 8239 \<or> c = 8287 \<or> c = 12288"

text \<open>\<open>s.strip(chars)\<close>: drop the code points satisfying \<open>P\<close> from both ends.\<close>

definition strip_where :: "(nat \<Rightarrow> bool) \<Rightarrow> str \<Rightarrow> str" where
  "strip_where P s = rev (dropWhile P (rev (dropWhile P s)))"

definition py_strip :: "str \<Rightarrow> str" where
  "py_strip s = strip_where isspace s"

definition py_strip_chars :: "str \<Rightarrow> str \<Rightarrow> str" where
  "py_strip_chars chars s = strip_where (\<lambda>c. c \<in> set chars) s"

text \<open>
  \<open>str.lower()\<close> follows the Unicode case tables of the interpreter, which are not
  part of this repository: every function that calls it takes it as the parameter
  \<open>lower\<close>. On a string of ASCII code points it is \<open>ascii_lower\<close>: the letters
  \<open>A\<close>..\<open>Z\<close> are lowered and every other code point is kept.
\<close>

definition lower_cp :: "nat \<Rightarrow> nat" where
  "lower_cp c = (if 65 \<le> c \<and> c \<le> 90 then c + 32 else c)"

definition ascii_lower :: "str \<Rightarrow> str" where
  "ascii_lower s = map lower_cp s"

definition is_ascii :: "str \<Rightarrow> bool" where
  "is_ascii s = list_all (\<lambda>c. c < 128) s"

text \<open>
  What is used of \<open>str.lower()\<close>: on ASCII strings it is \<open>ascii_lower\<close>; a string
  made of code points that it outputs is left as it is (it outputs no code point that
  has a lower-case form of its own); and the whitespace of its output is whitespace of
  its input.
\<close>

definition lower_on_ascii :: "(str \<Rightarrow> str) \<Rightarrow> bool" where
  "lower_on_ascii lower \<longleftrightarrow> (\<forall>s. is_ascii s \<longrightarrow> lower s = ascii_lower s)"

definition lower_stable :: "(str \<Rightarrow> str) \<Rightarrow> bool" where
  "lower_stable lower \<longleftrightarrow> (\<forall>s t. set t \<subseteq> set (lower s) \<longrightarrow> lower t = t)"

definition lower_keeps_whitespace :: "(str \<Rightarrow> str) \<Rightarrow> bool" where
  "lower_keeps_whitespace lower \<longleftrightarrow> (\<forall>s. \<forall>c\<in>set (lower s). isspace c \<longrightarrow> c \<in> set s)"

text \<open>\<open>s.replace(old, new)\<close> for an \<open>old\<close> of one code point.\<close>

definition py_replace :: "nat \<Rightarrow> str \<Rightarrow> str \<Rightarrow> str" where
  "py_replace old new s = concat (map (\<lambda>c. if c = old then new else [c]) s)"

text \<open>\<open>s.split(sep)\<close> for a separator of one code point: never the empty list.\<close>

fun py_split :: "nat \<Rightarrow> str \<Rightarrow> str list" where
  "py_split sep [] = [[]]"
| "py_split sep (c # cs) =
     (if c = sep then [] # py_split sep cs
      else (case py_split sep cs of
              [] \<Rightarrow> [[c]]
            | w # ws \<Rightarrow> (c # w) # ws))"

text \<open>\<open>sep.join(xs)\<close>.\<close>

fun py_join :: "str \<Rightarrow> str list \<Rightarrow> str" where
  "py_join sep [] = []"
| "py_join sep [x] = x"
| "py_join sep (x # y # ys) = x @ sep @ py_join sep (y # ys)"

text \<open>\<open>q in s\<close> on strings: \<open>q\<close> occurs in \<open>s\<close> as a contiguous run.\<close>

fun py_in :: "str \<Rightarrow> str \<Rightarrow> bool" where
  "py_in q [] = (q = [])"
| "py_in q (c # cs) = (prefix q (c # cs) \<or> py_in q cs)"

text \<open>\<open>x or y\<close> where \<open>x\<close> is a string or \<open>None\<close>: \<open>None\<close> and \<open>""\<close> are falsy.\<close>

definition or_else :: "str option \<Rightarrow> str \<Rightarrow> str" where
  "or_else x y = (case x of None \<Rightarrow> y | Some s \<Rightarrow> if s = [] then y else s)"

text \<open>An f-string field \<open>{p}\<close> where \<open>p\<close> is a string or \<open>None\<close>.\<close>

definition fmt :: "str option \<Rightarrow> str" where
  "fmt p = (case p of None \<Rightarrow> lit ''None'' | Some s \<Rightarrow> s)"

definition semicolon :: nat where "semicolon = 59"
definition space :: nat where "space = 32"
definition underscore :: nat where "underscore = 95"
definition newline :: nat where "newline = 10"

text \<open>The bullet marker U+2022 followed by a space, as in \<open>f"\<bullet> {x}"\<close>.\<close>

definition bullet :: str where
  "bullet = [8226, 32]"

section \<open>Configuration, rows and the catalog\<close>

datatype field_key =
  Name | State | District | About | Attractions | Activities | Booking
  | Handicrafts | Stays | Food | Transport | Unique | Official

fun FIELD_MAP :: "field_key \<Rightarrow> str" where
  "FIELD_MAP Name = lit ''Village Name''"
| "FIELD_MAP State = lit ''State''"
| "FIELD_MAP District = lit ''District''"
| "FIELD_MAP About = lit ''About the Village''"
| "FIELD_MAP Attractions = lit ''Places to Visit / Tourist Attractions''"
| "FIELD_MAP Activities = lit ''Activities''"
| "FIELD_MAP Booking = lit ''Booking Information''"
| "FIELD_MAP Handicrafts = lit ''Local Handicrafts / Products''"
| "FIELD_MAP Stays = lit ''Places to Stay''"
| "FIELD_MAP Food = lit ''Famous Foods / Restaurants''"
| "FIELD_MAP Transport = lit ''Transport and Accessibility''"
| "FIELD_MAP Unique = lit ''Unique Features''"
| "FIELD_MAP Official = lit ''Official Website or Contact Info''"

text \<open>
  A row of \<open>csv.DictReader\<close>: a dictionary from column names to cell texts;
  \<open>row.get(col)\<close> is \<open>row col\<close>, \<open>None\<close> for a missing column or cell.
\<close>

type_synonym row = "str \<rightharpoonup> str"

text \<open>
  The catalog is a Python \<open>dict\<close>: its keys are distinct, it iterates in insertion
  order, and storing under a key already there keeps the key's position.
\<close>

type_synonym catalog = "(str \<times> row) list"

definition normalize :: "(str \<Rightarrow> str) \<Rightarrow> str option \<Rightarrow> str" where
  "normalize lower s =
     py_replace underscore [] (py_replace space [] (lower (py_strip (or_else s []))))"

text \<open>
  \<open>load_catalog\<close> on the rows that the reader yields from the file, in file order
  (opening and parsing the file, and the log line, are outside the model).
\<close>

definition load_step :: "(str \<Rightarrow> str) \<Rightarrow> row \<Rightarrow> catalog \<Rightarrow> catalog" where
  "load_step lower r data =
     (let key = normalize lower (r (FIELD_MAP Name))
      in if key \<noteq> [] then AList.update key r data else data)"

definition load_catalog :: "(str \<Rightarrow> str) \<Rightarrow> row list \<Rightarrow> catalog" where
  "load_catalog lower rows = fold (load_step lower) rows []"

definition default_text :: str where
  "default_text = lit ''Information not available.''"

definition pick :: "row \<Rightarrow> field_key \<Rightarrow> str \<Rightarrow> str" where
  "pick r field_key dflt =
     (let col = FIELD_MAP field_key;
          val = py_strip (or_else (r col) [])
      in if val \<noteq> [] then val else dflt)"

text \<open>
  \<open>bullets\<close> and \<open>filter_activity_line\<close> are called with strings only (what
  \<open>pick\<close> and \<open>filter_activity_line\<close> return, and a raw entity), for which
  \<open>text or ""\<close> is the text itself.
\<close>

definition bullets :: "str \<Rightarrow> str" where
  "bullets text =
     (let items = map py_strip (filter (\<lambda>x. py_strip x \<noteq> []) (py_split semicolon text))
      in if items \<noteq> [] then py_join [newline] (map (\<lambda>x. bullet @ x) items) else text)"

definition not_found_activity :: str where
  "not_found_activity = lit ''Requested activity not found for this place.''"

definition filter_activity_line ::
  "(str \<Rightarrow> str) \<Rightarrow> str \<Rightarrow> str \<Rightarrow> str" where
  "filter_activity_line lower activities_text activity_query =
     (if activity_query = [] then activities_text
      else
        let lines = map py_strip
                      (filter (\<lambda>x. py_strip x \<noteq> []) (py_split semicolon activities_text));
            q = lower (py_strip activity_query);
            hits = filter (\<lambda>ln. py_in q (lower ln)) lines
        in if hits \<noteq> [] then py_join (lit ''; '') hits else not_found_activity)"

section \<open>The webhook\<close>

text \<open>
  \<open>SECRET_HEADER\<close> and \<open>SECRET_TOKEN\<close> are read from the environment at start;
  the token is empty unless it is set.
\<close>

record config =
  SECRET_HEADER :: str
  SECRET_TOKEN :: str

text \<open>
  The request: its headers, the tag at \<open>fulfillmentInfo.tag\<close> (\<open>""\<close> when absent)
  and the string parameters at \<open>sessionInfo.parameters\<close> (empty when absent).
\<close>

record request =
  headers :: "str \<rightharpoonup> str"
  tag :: str
  params :: "str \<rightharpoonup> str"

text \<open>A message \<open>{"text": {"text": [...]}}\<close>.\<close>

datatype message = Text "str list"

definition msg :: "str \<Rightarrow> message" where
  "msg text = Text [text]"

text \<open>
  The HTTP answer: the status and the messages of
  \<open>{"fulfillmentResponse": {"messages": [...]}}\<close>.
\<close>

record response =
  status :: nat
  messages :: "message list"

text \<open>\<open>jsonify({"fulfillmentResponse": {"messages": [m]}})\<close>, returned with status 200.\<close>

definition jsonify :: "message \<Rightarrow> response" where
  "jsonify m = \<lparr>status = 200, messages = [m]\<rparr>"

definition verify_secret :: "config \<Rightarrow> request \<Rightarrow> bool" where
  "verify_secret cfg req =
     (if SECRET_TOKEN cfg = [] then True
      else (case headers req (SECRET_HEADER cfg) of None \<Rightarrow> [] | Some v \<Rightarrow> v)
             = SECRET_TOKEN cfg)"

definition not_found_place :: str where
  "not_found_place = lit ''I couldn't find that place. Try another village or spelling.''"

definition by_place_required ::
  "(str \<Rightarrow> str) \<Rightarrow> catalog \<Rightarrow> str \<Rightarrow> response + row" where
  "by_place_required lower CAT place_raw =
     (let place_key = normalize lower (Some place_raw)
      in if place_key = [] then Inl (jsonify (msg not_found_place))
         else (case map_of CAT place_key of
                 None \<Rightarrow> Inl (jsonify (msg not_found_place))
               | Some r \<Rightarrow> Inr r))"

definition getPlaceDetails :: "row \<Rightarrow> str \<Rightarrow> response" where
  "getPlaceDetails r place_raw =
     (let name = pick r Name place_raw;
          state = pick r State [];
          district = pick r District [];
          about = pick r About default_text;
          unique = pick r Unique [];
          header = py_strip_chars (lit '', '')
                     (name @ lit '' ('' @ district @ lit '', '' @ state @ lit '')'');
          text = header @ [newline, newline] @ about
      in if unique \<noteq> [] \<and> unique \<noteq> default_text
         then jsonify (msg (text @ [newline, newline] @ lit ''Unique:'' @ [newline]
                              @ bullets unique))
         else jsonify (msg text))"

definition getAttractions :: "row \<Rightarrow> str \<Rightarrow> response" where
  "getAttractions r place_raw =
     (let name = pick r Name place_raw;
          attractions = bullets (pick r Attractions default_text)
      in jsonify (msg (lit ''Top attractions in '' @ name @ lit '':'' @ [newline]
                         @ attractions)))"

definition getActivities ::
  "(str \<Rightarrow> str) \<Rightarrow> row \<Rightarrow> str \<Rightarrow> str \<Rightarrow> response" where
  "getActivities lower r place_raw activity_raw =
     (let name = pick r Name place_raw;
          activities = pick r Activities default_text;
          filtered = filter_activity_line lower activities activity_raw
      in jsonify (msg (lit ''Activities in '' @ name @ lit '':'' @ [newline]
                         @ bullets filtered)))"

definition getFood :: "row \<Rightarrow> str \<Rightarrow> response" where
  "getFood r place_raw =
     (let name = pick r Name place_raw;
          food = bullets (pick r Food default_text)
      in jsonify (msg (lit ''Food in '' @ name @ lit '':'' @ [newline] @ food)))"

definition getTransport :: "row \<Rightarrow> str \<Rightarrow> response" where
  "getTransport r place_raw =
     (let name = pick r Name place_raw;
          tx = bullets (pick r Transport default_text)
      in jsonify (msg (lit ''How to reach '' @ name @ lit '':'' @ [newline] @ tx)))"

definition getStays :: "row \<Rightarrow> str \<Rightarrow> response" where
  "getStays r place_raw =
     (let name = pick r Name place_raw;
          stays = bullets (pick r Stays default_text)
      in jsonify (msg (lit ''Places to stay in/near '' @ name @ lit '':'' @ [newline]
                         @ stays)))"

definition getHandicrafts :: "row \<Rightarrow> str \<Rightarrow> response" where
  "getHandicrafts r place_raw =
     (let name = pick r Name place_raw;
          craft = bullets (pick r Handicrafts default_text)
      in jsonify (msg (lit ''Local crafts in '' @ name @ lit '':'' @ [newline] @ craft)))"

definition getOfficial :: "row \<Rightarrow> str \<Rightarrow> response" where
  "getOfficial r place_raw =
     (let name = pick r Name place_raw;
          url = pick r Official default_text
      in jsonify (msg (lit ''Official info for '' @ name @ lit '':'' @ [newline] @ url)))"

definition list_places_by ::
  "(str \<Rightarrow> str) \<Rightarrow> catalog \<Rightarrow> field_key \<Rightarrow> str \<Rightarrow> str option list" where
  "list_places_by lower CAT col_key val =
     (let col = FIELD_MAP col_key;
          target = normalize lower (Some val)
      in map (\<lambda>r. r (FIELD_MAP Name))
           (filter (\<lambda>r. normalize lower (r col) = target) (map snd CAT)))"

definition prompt_scope :: str where
  "prompt_scope = lit ''Tell me a state or district to recommend places.''"

definition render_places :: "str \<Rightarrow> str option list \<Rightarrow> response" where
  "render_places scope places =
     (if places = []
      then jsonify (msg (lit ''No places found for '' @ scope @ lit ''.''))
      else
        let top = take 10 places;
            text = lit ''Recommended places in '' @ scope @ lit '':'' @ [newline]
                     @ py_join [newline] (map (\<lambda>p. bullet @ fmt p) top)
        in jsonify (msg text))"

definition getRecommendations ::
  "(str \<Rightarrow> str) \<Rightarrow> catalog \<Rightarrow> str \<Rightarrow> str \<Rightarrow> response" where
  "getRecommendations lower CAT state_raw district_raw =
     (if district_raw \<noteq> []
      then render_places district_raw (list_places_by lower CAT District district_raw)
      else if state_raw \<noteq> []
      then render_places state_raw (list_places_by lower CAT State state_raw)
      else jsonify (msg prompt_scope))"

text \<open>
  The tags of the handlers that look the place up first, as the comment above
  \<open>by_place_required\<close> lists them.
\<close>

definition by_place_tags :: "str list" where
  "by_place_tags =
     [lit ''getPlaceDetails'', lit ''getAttractions'', lit ''getActivities'', lit ''getFood'',
      lit ''getTransport'', lit ''getStays'', lit ''getHandicrafts'', lit ''getOfficial'']"

text \<open>
  \<open>row, err = by_place_required(); if err: return err\<close> followed by the rest of the
  branch, which uses the row.
\<close>

definition with_place ::
  "(str \<Rightarrow> str) \<Rightarrow> catalog \<Rightarrow> str \<Rightarrow> (row \<Rightarrow> response) \<Rightarrow> response" where
  "with_place lower CAT place_raw rest =
     (case by_place_required lower CAT place_raw of
        Inl err \<Rightarrow> err
      | Inr r \<Rightarrow> rest r)"

text \<open>
  The entities of the request: the parameter under its own name, else the one under
  the name of the entity extraction, else \<open>""\<close>.
\<close>

definition place_raw :: "request \<Rightarrow> str" where
  "place_raw req =
     or_else (params req (lit ''place'')) (or_else (params req (lit ''cx_entities_place'')) [])"

definition activity_raw :: "request \<Rightarrow> str" where
  "activity_raw req =
     or_else (params req (lit ''activity''))
       (or_else (params req (lit ''cx_entities_activity'')) [])"

definition state_raw :: "request \<Rightarrow> str" where
  "state_raw req =
     or_else (params req (lit ''state'')) (or_else (params req (lit ''cx_entities_state'')) [])"

definition district_raw :: "request \<Rightarrow> str" where
  "district_raw req =
     or_else (params req (lit ''district''))
       (or_else (params req (lit ''cx_entities_district'')) [])"

text \<open>The body of \<open>fulfillment\<close> after the secret check.\<close>

definition dispatch :: "(str \<Rightarrow> str) \<Rightarrow> catalog \<Rightarrow> request \<Rightarrow> response" where
  "dispatch lower CAT req =
     (let t = tag req;
          place_raw = place_raw req;
          activity_raw = activity_raw req;
          state_raw = state_raw req;
          district_raw = district_raw req
      in if t = lit ''getPlaceDetails''
           then with_place lower CAT place_raw (\<lambda>r. getPlaceDetails r place_raw)
         else if t = lit ''getAttractions''
           then with_place lower CAT place_raw (\<lambda>r. getAttractions r place_raw)
         else if t = lit ''getActivities''
           then with_place lower CAT place_raw
                  (\<lambda>r. getActivities lower r place_raw activity_raw)
         else if t = lit ''getFood''
           then with_place lower CAT place_raw (\<lambda>r. getFood r place_raw)
         else if t = lit ''getTransport''
           then with_place lower CAT place_raw (\<lambda>r. getTransport r place_raw)
         else if t = lit ''getStays''
           then with_place lower CAT place_raw (\<lambda>r. getStays r place_raw)
         else if t = lit ''getHandicrafts''
           then with_place lower CAT place_raw (\<lambda>r. getHandicrafts r place_raw)
         else if t = lit ''getOfficial''
           then with_place lower CAT place_raw (\<lambda>r. getOfficial r place_raw)
         else if t = lit ''getRecommendations''
           then getRecommendations lower CAT state_raw district_raw
         else jsonify (msg (lit ''Unhandled webhook tag.'')))"

definition fulfillment ::
  "(str \<Rightarrow> str) \<Rightarrow> config \<Rightarrow> catalog \<Rightarrow> request \<Rightarrow> response" where
  "fulfillment lower cfg CAT req =
     (if \<not> verify_secret cfg req
      then \<lparr>status = 401, messages = [msg (lit ''Unauthorized'')]\<rparr>
      else dispatch lower CAT req)"

section \<open>What the specification says, in its own words\<close>

text \<open>
  The Bulleter as the specification describes it: split on \<open>;\<close>, trim each segment,
  discard the empty ones, prefix each survivor with the bullet marker and join with
  newlines; the input itself when nothing survives.
\<close>

definition bullets_spec :: "str \<Rightarrow> str" where
  "bullets_spec text =
     (let segments = py_split semicolon text;
          trimmed = map py_strip segments;
          survivors = filter (\<lambda>x. x \<noteq> []) trimmed
      in if survivors = [] then text
         else py_join [newline] (map (\<lambda>x. bullet @ x) survivors))"

text \<open>
  The Activity Filter as the specification describes it: the text itself for an empty
  query; otherwise split on \<open>;\<close>, trim, discard the empty segments, keep the segments
  whose lower-cased form contains the lower-cased query, and join them with \<open>"; "\<close>;
  the fixed sentence when none is kept.
\<close>

definition filter_activity_line_spec ::
  "(str \<Rightarrow> str) \<Rightarrow> str \<Rightarrow> str \<Rightarrow> str" where
  "filter_activity_line_spec lower activities_text query =
     (if query = [] then activities_text
      else
        let segments = py_split semicolon activities_text;
            trimmed = map py_strip segments;
            kept_nonempty = filter (\<lambda>x. x \<noteq> []) trimmed;
            kept = filter (\<lambda>x. py_in (lower query) (lower x)) kept_nonempty
        in if kept = [] then not_found_activity else py_join (lit ''; '') kept)"

text \<open>The key of a row: \<open>normalize(row.get("Village Name"))\<close>.\<close>

definition row_key :: "(str \<Rightarrow> str) \<Rightarrow> row \<Rightarrow> str" where
  "row_key lower r = normalize lower (r (FIELD_MAP Name))"

text \<open>The text of the first message of a response.\<close>

definition response_text :: "response \<Rightarrow> str" where
  "response_text res =
     (case messages res of Text (t # _) # _ \<Rightarrow> t | _ \<Rightarrow> [])"

text \<open>The lines of a text that begin with the bullet marker.\<close>

definition bullet_lines :: "str \<Rightarrow> str list" where
  "bullet_lines text = filter (prefix bullet) (py_split newline text)"

section \<open>Example data\<close>

definition row_green_hill :: row where
  "row_green_hill =
     [lit ''Village Name'' \<mapsto> lit ''Green Hill'', lit ''State'' \<mapsto> lit ''Himachal'',
      lit ''Activities'' \<mapsto> lit ''Fishing; Bird watching; Hiking'']"

definition row_blank :: row where
  "row_blank = [lit ''Village Name'' \<mapsto> lit '' _ '', lit ''State'' \<mapsto> lit ''Himachal'']"

definition row_green_hill_again :: row where
  "row_green_hill_again =
     [lit ''Village Name'' \<mapsto> lit ''green_hill'', lit ''State'' \<mapsto> lit ''Sikkim'']"

definition example_catalog :: catalog where
  "example_catalog = load_catalog ascii_lower [row_green_hill, row_blank, row_green_hill_again]"

definition cfg_default :: config where
  "cfg_default = \<lparr>SECRET_HEADER = lit ''X-DF-Secret'', SECRET_TOKEN = []\<rparr>"

definition cfg_secret :: config where
  "cfg_secret = \<lparr>SECRET_HEADER = lit ''X-DF-Secret'', SECRET_TOKEN = lit ''abc123''\<rparr>"

definition req_food_nowhere :: request where
  "req_food_nowhere =
     \<lparr>headers = Map.empty, tag = lit ''getFood'', params = [lit ''place'' \<mapsto> lit ''Nowhere'']\<rparr>"

definition req_food_nowhere_signed :: request where
  "req_food_nowhere_signed =
     \<lparr>headers = [lit ''X-DF-Secret'' \<mapsto> lit ''abc123''], tag = lit ''getFood'',
      params = [lit ''place'' \<mapsto> lit ''Nowhere'']\<rparr>"

definition kullu_row :: "str \<Rightarrow> row" where
  "kullu_row name = [lit ''Village Name'' \<mapsto> name, lit ''District'' \<mapsto> lit ''Kullu'']"

definition kullu_names :: "str list" where
  "kullu_names =
     [lit ''Village A'', lit ''Village B'', lit ''Village C'', lit ''Village D'',
      lit ''Village E'', lit ''Village F'', lit ''Village G'', lit ''Village H'',
      lit ''Village I'', lit ''Village J'', lit ''Village K'', lit ''Village L'']"

definition kullu_catalog :: catalog where
  "kullu_catalog = load_catalog ascii_lower (map kullu_row kullu_names)"

definition req_recommend_kullu :: request where
  "req_recommend_kullu =
     \<lparr>headers = Map.empty, tag = lit ''getRecommendations'',
      params = [lit ''district'' \<mapsto> lit ''Kullu'']\<rparr>"



definition row_no_region :: row where
  "row_no_region =
     [lit ''Village Name'' \<mapsto> lit ''Green Hill'', lit ''State'' \<mapsto> [], lit ''District'' \<mapsto> [],
      lit ''About the Village'' \<mapsto> lit ''A quiet village.'']"

definition req_details_green_hill :: request where
  "req_details_green_hill =
     \<lparr>headers = Map.empty, tag = lit ''getPlaceDetails'',
      params = [lit ''place'' \<mapsto> lit ''Green Hill'']\<rparr>"




text \<open>Twelve villages of Kullu again; the name of the first holds a newline and a bullet.\<close>

definition kullu_names_two_lines :: "str list" where
  "kullu_names_two_lines =
     [lit ''Village A'' @ [10, 8226, 32] @ lit ''Annex'', lit ''Village B'', lit ''Village C'',
      lit ''Village D'', lit ''Village E'', lit ''Village F'', lit ''Village G'',
      lit ''Village H'', lit ''Village I'', lit ''Village J'', lit ''Village K'',
      lit ''Village L'']"

definition kullu_catalog_two_lines :: catalog where
  "kullu_catalog_two_lines = load_catalog ascii_lower (map kullu_row kullu_names_two_lines)"

section \<open>Facts about the string operations\<close>

lemma py_split_not_Nil: "py_split sep s \<noteq> []"
  by (induction s) (auto split: list.splits)

lemma py_join_Cons: "ws \<noteq> [] \<Longrightarrow> py_join sep (w # ws) = w @ sep @ py_join sep ws"
  by (cases ws) auto

text \<open>Splitting loses nothing: joining the segments with the separator gives the text back.\<close>

lemma py_join_split: "py_join [sep] (py_split sep s) = s"
proof (induction s)
  case Nil
  show ?case by simp
next
  case (Cons c cs)
  show ?case
  proof (cases "c = sep")
    case True
    with Cons show ?thesis
      by (simp add: py_join_Cons py_split_not_Nil)
  next
    case False
    obtain w ws where ws: "py_split sep cs = w # ws"
      using py_split_not_Nil [of sep cs] by (cases "py_split sep cs") auto
    with Cons False show ?thesis
      by (cases ws) auto
  qed
qed

lemma py_split_no_sep: "w \<in> set (py_split sep s) \<Longrightarrow> sep \<notin> set w"
  by (induction s arbitrary: w) (auto split: if_splits list.splits)

lemma py_split_no_sep_id: "sep \<notin> set s \<Longrightarrow> py_split sep s = [s]"
  by (induction s) auto

lemma py_in_sublist: "py_in q s \<longleftrightarrow> sublist q s"
  by (induction s) (auto simp: sublist_Cons_right)

lemma py_replace_empty: "py_replace old [] s = filter (\<lambda>c. c \<noteq> old) s"
  by (induction s) (auto simp: py_replace_def)

lemma dropWhile_none: "\<forall>c\<in>set s. \<not> P c \<Longrightarrow> dropWhile P s = s"
  by (cases s) auto

lemma strip_where_id: "\<forall>c\<in>set s. \<not> P c \<Longrightarrow> strip_where P s = s"
  by (simp add: strip_where_def dropWhile_none)

lemma set_strip_where: "set (strip_where P s) \<subseteq> set s"
proof -
  have "set (dropWhile P (rev (dropWhile P s))) \<subseteq> set (rev (dropWhile P s))"
    by (meson set_dropWhileD subsetI)
  also have "\<dots> \<subseteq> set s"
    using set_dropWhileD by fastforce
  finally show ?thesis
    by (simp add: strip_where_def)
qed

text \<open>
  Stripping removes a run of \<open>P\<close> from each end and nothing else, and what is left
  neither begins nor ends with \<open>P\<close>.
\<close>

lemma strip_where_split:
  "s = takeWhile P s @ strip_where P s @ rev (takeWhile P (rev (dropWhile P s)))"
proof -
  let ?d = "dropWhile P s"
  have "rev (takeWhile P (rev ?d) @ dropWhile P (rev ?d)) = rev (rev ?d)"
    by (simp only: takeWhile_dropWhile_id)
  then have "?d = rev (dropWhile P (rev ?d)) @ rev (takeWhile P (rev ?d))"
    by (simp only: rev_append rev_rev_ident)
  moreover have "s = takeWhile P s @ ?d"
    by simp
  ultimately show ?thesis
    unfolding strip_where_def by metis
qed

lemma last_dropWhile_same: "dropWhile P ys \<noteq> [] \<Longrightarrow> last (dropWhile P ys) = last ys"
  by (induction ys) (auto split: if_splits)

lemma strip_where_ends:
  assumes "strip_where P s \<noteq> []"
  shows "\<not> P (hd (strip_where P s)) \<and> \<not> P (last (strip_where P s))"
proof -
  let ?d = "dropWhile P s"
  let ?e = "dropWhile P (rev ?d)"
  from assms have e: "?e \<noteq> []"
    by (simp add: strip_where_def)
  then have d: "?d \<noteq> []"
    by (metis dropWhile.simps(1) rev.simps(1))
  have "last (strip_where P s) = hd ?e"
    using e by (simp add: strip_where_def last_rev)
  moreover have "\<not> P (hd ?e)"
    using e by (rule hd_dropWhile)
  moreover have "hd (strip_where P s) = last ?e"
    using e by (simp add: strip_where_def hd_rev)
  moreover have "last ?e = hd ?d"
    using e d by (simp add: last_dropWhile_same last_rev)
  moreover have "\<not> P (hd ?d)"
    using d by (rule hd_dropWhile)
  ultimately show ?thesis
    by simp
qed

lemma lower_ascii: "lower_on_ascii lower \<Longrightarrow> is_ascii s \<Longrightarrow> lower s = ascii_lower s"
  by (simp add: lower_on_ascii_def)

lemmas eval_str =
  lit_def py_strip_def py_strip_chars_def strip_where_def isspace_def ascii_lower_def
  lower_cp_def is_ascii_def semicolon_def space_def underscore_def newline_def bullet_def

section \<open>The Bulleter\<close>

lemma items_trim_then_discard:
  "map py_strip (filter (\<lambda>x. py_strip x \<noteq> []) segs) = filter (\<lambda>x. x \<noteq> []) (map py_strip segs)"
  by (induction segs) auto

lemma bullets_activities:
  "bullets (lit ''Fishing; Bird watching; Hiking'') =
     [8226, 32] @ lit ''Fishing'' @ [10, 8226, 32] @ lit ''Bird watching''
       @ [10, 8226, 32] @ lit ''Hiking''"
  by (simp add: bullets_def eval_str)

lemma bullets_blank_segments:
  "bullets ([9] @ lit ''a ;; b'' @ [160, 10, 59, 32]) = [8226, 32, 97, 10, 8226, 32, 98]"
  by (simp add: bullets_def eval_str)

lemma bullets_nothing_left: "bullets (lit '' ; ;'') = lit '' ; ;''"
  by (simp add: bullets_def eval_str)

text \<open>
  C9. \<open>bullets\<close> splits its input on \<open>;\<close> (the segments contain no \<open>;\<close> and, joined
  with \<open>;\<close>, give the input back), trims each segment (a run of whitespace goes from
  each end and what is left neither begins nor ends with whitespace), discards the
  segments that are empty then, and joins the survivors, each prefixed with the bullet
  marker and a space, with newlines; when no segment survives it returns its input
  unchanged. In particular \<open>bullets("")\<close> is \<open>""\<close>, with no bullet marker;
  \<open>"Fishing; Bird watching; Hiking"\<close> gives three bullet lines, blank segments
  between semicolons give none, and \<open>" ; ;"\<close> comes back as it is.
\<close>

theorem bullets_as_specified:
  "bullets text = bullets_spec text \<and>
   py_join [59] (py_split 59 text) = text \<and>
   (\<forall>seg\<in>set (py_split 59 text). 59 \<notin> set seg) \<and>
   (\<exists>l r. seg = l @ py_strip seg @ r \<and> (\<forall>c\<in>set (l @ r). isspace c)) \<and>
   (py_strip seg \<noteq> [] \<longrightarrow> \<not> isspace (hd (py_strip seg)) \<and> \<not> isspace (last (py_strip seg))) \<and>
   bullets [] = [] \<and>
   bullets (lit ''Fishing; Bird watching; Hiking'') =
     [8226, 32] @ lit ''Fishing'' @ [10, 8226, 32] @ lit ''Bird watching''
       @ [10, 8226, 32] @ lit ''Hiking'' \<and>
   bullets ([9] @ lit ''a ;; b'' @ [160, 10, 59, 32]) = [8226, 32, 97, 10, 8226, 32, 98] \<and>
   bullets (lit '' ; ;'') = lit '' ; ;''"
proof (intro conjI)
  show "bullets text = bullets_spec text"
    unfolding bullets_def bullets_spec_def Let_def items_trim_then_discard
    by (simp add: semicolon_def)
  show "py_join [59] (py_split 59 text) = text"
    by (rule py_join_split)
  show "\<forall>seg\<in>set (py_split 59 text). 59 \<notin> set seg"
    using py_split_no_sep by blast
  have "seg = takeWhile isspace seg @ py_strip seg
                @ rev (takeWhile isspace (rev (dropWhile isspace seg)))"
    unfolding py_strip_def by (rule strip_where_split)
  moreover have "\<forall>c\<in>set (takeWhile isspace seg
                      @ rev (takeWhile isspace (rev (dropWhile isspace seg)))). isspace c"
    by (auto dest: set_takeWhileD)
  ultimately show "\<exists>l r. seg = l @ py_strip seg @ r \<and> (\<forall>c\<in>set (l @ r). isspace c)"
    by blast
  show "py_strip seg \<noteq> [] \<longrightarrow>
          \<not> isspace (hd (py_strip seg)) \<and> \<not> isspace (last (py_strip seg))"
    unfolding py_strip_def using strip_where_ends by blast
  have "py_strip [] = []"
    by (simp add: py_strip_def strip_where_def)
  then show "bullets [] = []"
    by (simp add: bullets_def)
  show "bullets (lit ''Fishing; Bird watching; Hiking'') =
     [8226, 32] @ lit ''Fishing'' @ [10, 8226, 32] @ lit ''Bird watching''
       @ [10, 8226, 32] @ lit ''Hiking''"
    by (rule bullets_activities)
  show "bullets ([9] @ lit ''a ;; b'' @ [160, 10, 59, 32]) = [8226, 32, 97, 10, 8226, 32, 98]"
    by (rule bullets_blank_segments)
  show "bullets (lit '' ; ;'') = lit '' ; ;''"
    by (rule bullets_nothing_left)
qed

theorem bullets_as_specified_witness:
  "py_split 59 (lit ''a; b ;'') = [lit ''a'', lit '' b '', []] \<and>
   py_strip (lit '' b '') = lit ''b'' \<and>
   bullets (lit ''a; b ;'') = bullets_spec (lit ''a; b ;'') \<and>
   bullets_spec (lit ''a; b ;'') = [8226, 32, 97, 10, 8226, 32, 98] \<and>
   py_join [59] [lit ''a'', lit '' b '', []] = lit ''a; b ;'' \<and>
   59 \<notin> set (lit '' b '') \<and>
   \<not> isspace (hd (py_strip (lit '' b ''))) \<and> \<not> isspace (last (py_strip (lit '' b '')))"
proof -
  have sp: "py_split 59 (lit ''a; b ;'') = [lit ''a'', lit '' b '', []]"
    by (simp add: lit_def)
  have st: "py_strip (lit '' b '') = lit ''b''"
    by (simp add: eval_str)
  have ne: "py_strip (lit '' b '') \<noteq> []"
    unfolding st by (simp add: lit_def)
  have v: "bullets_spec (lit ''a; b ;'') = [8226, 32, 97, 10, 8226, 32, 98]"
    by (simp add: bullets_spec_def eval_str)
  note spec = bullets_as_specified [of "lit ''a; b ;''" "lit '' b ''"]
  from spec have "bullets (lit ''a; b ;'') = bullets_spec (lit ''a; b ;'')"
    by blast
  moreover from spec have "py_join [59] (py_split 59 (lit ''a; b ;'')) = lit ''a; b ;''"
    by blast
  moreover from spec have "\<forall>seg\<in>set (py_split 59 (lit ''a; b ;'')). 59 \<notin> set seg"
    by blast
  then have "59 \<notin> set (lit '' b '')"
    unfolding sp by simp
  moreover from spec ne
  have "\<not> isspace (hd (py_strip (lit '' b ''))) \<and> \<not> isspace (last (py_strip (lit '' b '')))"
    by blast
  ultimately show ?thesis
    using sp st v by simp
qed

text \<open>
  C1 as the specification has it: \<open>bullets\<close> returns the placeholder
  \<open>"Information not available."\<close> unchanged. It does not: the placeholder has no
  semicolon, so it is one segment, and that segment is not empty.
\<close>

theorem bullets_placeholder_changed:
  "bullets default_text \<noteq> default_text"
  by (simp add: bullets_def default_text_def eval_str)

text \<open>
  C1, amended. The placeholder \<open>"Information not available."\<close> contains no semicolon,
  and \<open>bullets\<close> renders it as one bullet item: the bullet marker, a space and the
  placeholder.
\<close>

theorem bullets_placeholder_one_item:
  "semicolon \<notin> set default_text \<and> bullets default_text = bullet @ default_text"
  by (simp add: bullets_def default_text_def eval_str)

section \<open>The Normalizer\<close>

lemma lower_cp_idem: "lower_cp (lower_cp c) = lower_cp c"
  by (simp add: lower_cp_def)

lemma lower_cp_space: "isspace (lower_cp c) \<Longrightarrow> lower_cp c = c"
  by (auto simp: lower_cp_def isspace_def split: if_splits)

text \<open>\<open>ascii_lower\<close> has the three properties.\<close>

lemma ascii_lower_on_ascii: "lower_on_ascii ascii_lower"
  by (simp add: lower_on_ascii_def)

lemma ascii_lower_stable: "lower_stable ascii_lower"
proof -
  have "map lower_cp t = t" if "set t \<subseteq> set (map lower_cp s)" for s t
    using that by (intro map_idI) (auto simp: lower_cp_idem)
  then show ?thesis
    by (simp add: lower_stable_def ascii_lower_def)
qed

lemma ascii_lower_keeps_whitespace: "lower_keeps_whitespace ascii_lower"
  unfolding lower_keeps_whitespace_def ascii_lower_def
  using lower_cp_space by fastforce

lemma normalize_chars:
  assumes "c \<in> set (normalize lower x)"
  shows "c \<in> set (lower (py_strip (or_else x []))) \<and> c \<noteq> space \<and> c \<noteq> underscore"
  using assms by (auto simp: normalize_def py_replace_empty)

lemma normalize_fixed:
  assumes "lower (py_strip y) = py_strip y"
    and "\<forall>c\<in>set y. c \<noteq> space \<and> c \<noteq> underscore"
  shows "normalize lower (Some y) = py_strip y"
proof -
  have sub: "set (py_strip y) \<subseteq> set y"
    by (simp add: py_strip_def set_strip_where)
  have keep: "filter (\<lambda>c. c \<noteq> space \<and> c \<noteq> underscore) (py_strip y) = py_strip y"
    using assms(2) sub by (auto simp: filter_id_conv)
  have "or_else (Some y) [] = y"
    by (simp add: or_else_def)
  then show ?thesis
    by (simp add: normalize_def py_replace_empty assms(1) keep)
qed

lemma normalize_twice:
  assumes "lower_stable lower"
  shows "normalize lower (Some (normalize lower x)) = py_strip (normalize lower x)"
proof (rule normalize_fixed)
  have "set (py_strip (normalize lower x)) \<subseteq> set (normalize lower x)"
    by (simp add: py_strip_def set_strip_where)
  also have "\<dots> \<subseteq> set (lower (py_strip (or_else x [])))"
    using normalize_chars by blast
  finally show "lower (py_strip (normalize lower x)) = py_strip (normalize lower x)"
    using assms by (simp add: lower_stable_def)
  show "\<forall>c\<in>set (normalize lower x). c \<noteq> space \<and> c \<noteq> underscore"
    using normalize_chars by blast
qed

lemma normalize_no_space:
  assumes "lower_keeps_whitespace lower"
    and "\<forall>c\<in>set x. isspace c \<longrightarrow> c = space"
  shows "\<forall>c\<in>set (normalize lower (Some x)). \<not> isspace c"
proof
  fix c assume c: "c \<in> set (normalize lower (Some x))"
  then have ns: "c \<noteq> space" and low: "c \<in> set (lower (py_strip (or_else (Some x) [])))"
    using normalize_chars by blast+
  have sub: "set (py_strip (or_else (Some x) [])) \<subseteq> set x"
    using set_strip_where [of isspace x] by (auto simp: or_else_def py_strip_def)
  show "\<not> isspace c"
  proof
    assume "isspace c"
    with low assms(1) have "c \<in> set (py_strip (or_else (Some x) []))"
      by (simp add: lower_keeps_whitespace_def)
    with sub have "c \<in> set x" by blast
    with \<open>isspace c\<close> assms(2) ns show False by blast
  qed
qed

text \<open>
  C8 as the specification has it: \<open>normalize(normalize(x)) == normalize(x)\<close> for every
  string. For \<open>"_\t_"\<close>, which has no letter, the first pass strips nothing, deletes the
  two underscores and leaves the tab; the second pass strips the tab.
\<close>

theorem normalize_not_idempotent:
  "normalize ascii_lower (Some (normalize ascii_lower (Some [95, 9, 95])))
     \<noteq> normalize ascii_lower (Some [95, 9, 95])"
  by (simp add: normalize_def or_else_def py_replace_def eval_str)

text \<open>The same with any \<open>lower\<close> that is \<open>str.lower()\<close> on ASCII strings.\<close>

lemma normalize_tab_between_underscores:
  assumes "lower_on_ascii lower"
  shows "normalize lower (Some [95, 9, 95]) = [9]"
    and "normalize lower (Some (normalize lower (Some [95, 9, 95]))) = []"
proof -
  show one: "normalize lower (Some [95, 9, 95]) = [9]"
    by (simp add: normalize_def or_else_def py_replace_def lower_ascii [OF assms] eval_str)
  show "normalize lower (Some (normalize lower (Some [95, 9, 95]))) = []"
    unfolding one
    by (simp add: normalize_def or_else_def py_replace_def lower_ascii [OF assms] eval_str)
qed

text \<open>
  C8, amended. Of \<open>str.lower()\<close> it is used that a string made of code points that it
  outputs is left as it is, and that the whitespace of its output is whitespace of its
  input. Then normalizing twice is normalizing once and stripping the result, for every
  string; and it is normalizing once for every string whose only whitespace is the
  space character.
\<close>

theorem normalize_twice_is_strip:
  assumes "lower_stable lower" and "lower_keeps_whitespace lower"
  shows
    "normalize lower (Some (normalize lower (Some x))) = py_strip (normalize lower (Some x)) \<and>
     ((\<forall>c\<in>set x. isspace c \<longrightarrow> c = space) \<longrightarrow>
        normalize lower (Some (normalize lower (Some x))) = normalize lower (Some x))"
proof (intro conjI impI)
  show tw: "normalize lower (Some (normalize lower (Some x)))
              = py_strip (normalize lower (Some x))"
    using assms(1) by (rule normalize_twice)
  assume "\<forall>c\<in>set x. isspace c \<longrightarrow> c = space"
  with assms(2) have "\<forall>c\<in>set (normalize lower (Some x)). \<not> isspace c"
    by (rule normalize_no_space)
  then have "py_strip (normalize lower (Some x)) = normalize lower (Some x)"
    unfolding py_strip_def by (rule strip_where_id)
  with tw show "normalize lower (Some (normalize lower (Some x))) = normalize lower (Some x)"
    by simp
qed

theorem normalize_twice_is_strip_witness:
  "filter isspace (lit '' Green_Hill '') = [space, space] \<and>
   normalize ascii_lower (Some (lit '' Green_Hill '')) = lit ''greenhill'' \<and>
   normalize ascii_lower (Some (normalize ascii_lower (Some (lit '' Green_Hill '')))) =
     normalize ascii_lower (Some (lit '' Green_Hill ''))"
proof -
  have h: "\<forall>c\<in>set (lit '' Green_Hill ''). isspace c \<longrightarrow> c = space"
    by (simp add: eval_str)
  have v: "normalize ascii_lower (Some (lit '' Green_Hill '')) = lit ''greenhill''"
    by (simp add: normalize_def or_else_def py_replace_def eval_str)
  have w: "filter isspace (lit '' Green_Hill '') = [space, space]"
    by (simp add: eval_str)
  from normalize_twice_is_strip
         [OF ascii_lower_stable ascii_lower_keeps_whitespace, of "lit '' Green_Hill ''"] h v w
  show ?thesis
    by blast
qed

section \<open>The Activity Filter\<close>

text \<open>
  C5 as the specification has it: the kept segments are those containing the lower-cased
  query. The code strips the query before it lower-cases it: for the query
  \<open>" bird "\<close> it keeps \<open>"Bird watching"\<close>, which does not contain \<open>" bird "\<close>, where
  the specification's filter keeps nothing and answers with the fixed sentence.
\<close>

theorem filter_activity_line_strips_query:
  "filter_activity_line ascii_lower (lit ''Fishing; Bird watching'') (lit '' bird '')
     \<noteq> filter_activity_line_spec ascii_lower (lit ''Fishing; Bird watching'') (lit '' bird '')"
  by (simp add: filter_activity_line_def filter_activity_line_spec_def not_found_activity_def
      Let_def eval_str)

lemma filter_activity_line_bird:
  assumes "lower_on_ascii lower"
  shows "filter_activity_line lower (lit ''Fishing; Bird watching'') (lit ''bird'')
           = lit ''Bird watching''"
  by (simp add: filter_activity_line_def not_found_activity_def Let_def lower_ascii [OF assms]
      eval_str)

lemma filter_activity_line_skiing:
  assumes "lower_on_ascii lower"
  shows "filter_activity_line lower (lit ''Fishing; Hiking'') (lit ''skiing'')
           = lit ''Requested activity not found for this place.''"
  by (simp add: filter_activity_line_def not_found_activity_def Let_def lower_ascii [OF assms]
      eval_str)

text \<open>
  C5, amended. \<open>filter_activity_line\<close> returns the activities text unchanged for an
  empty query. For a non-empty query it splits on \<open>;\<close>, trims the segments, discards
  the empty ones, keeps exactly the segments whose lower-cased form contains the
  trimmed, lower-cased query as a contiguous run, joined with \<open>"; "\<close>, and returns
  \<open>"Requested activity not found for this place."\<close> when it keeps none. The two
  examples of the specification hold (they are ASCII, where \<open>str.lower()\<close> is
  \<open>ascii_lower\<close>).
\<close>

theorem filter_activity_line_trimmed_query:
  "filter_activity_line lower a [] = a \<and>
   (q \<noteq> [] \<longrightarrow>
      filter_activity_line lower a q =
        (let segments = filter (\<lambda>x. x \<noteq> []) (map py_strip (py_split semicolon a));
             kept = filter (\<lambda>x. sublist (lower (py_strip q)) (lower x)) segments
         in if kept = [] then lit ''Requested activity not found for this place.''
            else py_join (lit ''; '') kept)) \<and>
   (lower_on_ascii lower \<longrightarrow>
      filter_activity_line lower (lit ''Fishing; Bird watching'') (lit ''bird'')
        = lit ''Bird watching'' \<and>
      filter_activity_line lower (lit ''Fishing; Hiking'') (lit ''skiing'')
        = lit ''Requested activity not found for this place.'')"
proof (intro conjI impI)
  show "filter_activity_line lower a [] = a"
    by (simp add: filter_activity_line_def)
next
  assume "q \<noteq> []"
  then show "filter_activity_line lower a q =
        (let segments = filter (\<lambda>x. x \<noteq> []) (map py_strip (py_split semicolon a));
             kept = filter (\<lambda>x. sublist (lower (py_strip q)) (lower x)) segments
         in if kept = [] then lit ''Requested activity not found for this place.''
            else py_join (lit ''; '') kept)"
    unfolding filter_activity_line_def Let_def items_trim_then_discard py_in_sublist
      not_found_activity_def
    by simp
next
  assume "lower_on_ascii lower"
  then show "filter_activity_line lower (lit ''Fishing; Bird watching'') (lit ''bird'')
               = lit ''Bird watching''"
    by (rule filter_activity_line_bird)
next
  assume "lower_on_ascii lower"
  then show "filter_activity_line lower (lit ''Fishing; Hiking'') (lit ''skiing'')
               = lit ''Requested activity not found for this place.''"
    by (rule filter_activity_line_skiing)
qed

theorem filter_activity_line_trimmed_query_witness:
  "lit '' WATCH '' \<noteq> [] \<and>
   filter_activity_line ascii_lower (lit ''Fishing; Bird watching'') (lit '' WATCH '')
     = lit ''Bird watching'' \<and>
   filter_activity_line ascii_lower (lit ''Fishing; Bird watching'') (lit ''bird'')
     = lit ''Bird watching'' \<and>
   filter_activity_line ascii_lower (lit ''Fishing; Hiking'') (lit ''skiing'')
     = lit ''Requested activity not found for this place.''"
proof -
  note spec = filter_activity_line_trimmed_query
                [of ascii_lower "lit ''Fishing; Bird watching''" "lit '' WATCH ''"]
  have ne: "lit '' WATCH '' \<noteq> []"
    by (simp add: lit_def)
  have segs: "filter (\<lambda>x. x \<noteq> [])
                (map py_strip (py_split semicolon (lit ''Fishing; Bird watching'')))
                = [lit ''Fishing'', lit ''Bird watching'']"
    by (simp add: eval_str)
  have q: "ascii_lower (py_strip (lit '' WATCH '')) = lit ''watch''"
    by (simp add: eval_str)
  have no: "\<not> sublist (lit ''watch'') (ascii_lower (lit ''Fishing''))"
    unfolding py_in_sublist [symmetric] by (simp add: eval_str)
  have yes: "sublist (lit ''watch'') (ascii_lower (lit ''Bird watching''))"
    unfolding py_in_sublist [symmetric] by (simp add: eval_str)
  from spec ne
  have "filter_activity_line ascii_lower (lit ''Fishing; Bird watching'') (lit '' WATCH '') =
          (let segments = filter (\<lambda>x. x \<noteq> [])
                            (map py_strip (py_split semicolon (lit ''Fishing; Bird watching'')));
               kept = filter (\<lambda>x. sublist (ascii_lower (py_strip (lit '' WATCH '')))
                                     (ascii_lower x)) segments
           in if kept = [] then lit ''Requested activity not found for this place.''
              else py_join (lit ''; '') kept)"
    by blast
  also have "\<dots> = lit ''Bird watching''"
    unfolding segs q Let_def using no yes by simp
  finally have one: "filter_activity_line ascii_lower (lit ''Fishing; Bird watching'')
                       (lit '' WATCH '') = lit ''Bird watching''" .
  from spec ascii_lower_on_ascii
  have "filter_activity_line ascii_lower (lit ''Fishing; Bird watching'') (lit ''bird'')
          = lit ''Bird watching'' \<and>
        filter_activity_line ascii_lower (lit ''Fishing; Hiking'') (lit ''skiing'')
          = lit ''Requested activity not found for this place.''"
    by blast
  with one ne show ?thesis
    by simp
qed

section \<open>The Catalog Loader\<close>

lemma load_step_map_of:
  "map_of (load_step lower r data) k =
     (if row_key lower r \<noteq> [] \<and> row_key lower r = k then Some r else map_of data k)"
  by (simp add: load_step_def row_key_def Let_def update_conv')

lemma load_step_distinct:
  "distinct (map fst data) \<Longrightarrow> distinct (map fst (load_step lower r data))"
  by (simp add: load_step_def Let_def distinct_update)

lemma load_step_skip: "row_key lower r = [] \<Longrightarrow> load_step lower r data = data"
  by (simp add: load_step_def row_key_def)

lemma fold_load_step_map_of:
  "map_of (fold (load_step lower) rows acc) k =
     (let same = filter (\<lambda>r. row_key lower r = k) rows
      in if k = [] \<or> same = [] then map_of acc k else Some (last same))"
  by (induction rows arbitrary: acc) (auto simp: load_step_map_of Let_def)

lemma fold_load_step_distinct:
  "distinct (map fst acc) \<Longrightarrow> distinct (map fst (fold (load_step lower) rows acc))"
  by (induction rows arbitrary: acc) (auto simp: load_step_distinct)

lemma fold_load_step_skip:
  "fold (load_step lower) (filter (\<lambda>r. row_key lower r \<noteq> []) rows) acc = fold (load_step lower) rows acc"
  by (induction rows arbitrary: acc) (auto simp: load_step_skip)

text \<open>
  C3. \<open>load_catalog\<close> keys each row by \<open>normalize\<close> of its \<open>"Village Name"\<close>: every
  row whose key is not empty has its key in the catalog; the rows whose key is empty are
  skipped (the catalog is the one loaded without them); and under each key the catalog
  holds the last row of the file with that key, so a later row overwrites an earlier one
  with the same key. The keys of the catalog are distinct.
\<close>

theorem load_catalog_last_write_wins:
  "(\<forall>r\<in>set rows. row_key lower r \<noteq> [] \<longrightarrow> map_of (load_catalog lower rows) (row_key lower r) \<noteq> None) \<and>
   load_catalog lower (filter (\<lambda>r. row_key lower r \<noteq> []) rows) = load_catalog lower rows \<and>
   (\<forall>k. map_of (load_catalog lower rows) k =
          (let same = filter (\<lambda>r. row_key lower r = k) rows
           in if k = [] \<or> same = [] then None else Some (last same))) \<and>
   distinct (map fst (load_catalog lower rows))"
proof (intro conjI ballI impI allI)
  fix r assume "r \<in> set rows" "row_key lower r \<noteq> []"
  then have "filter (\<lambda>r'. row_key lower r' = row_key lower r) rows \<noteq> []"
    by (auto simp: filter_empty_conv)
  with \<open>row_key lower r \<noteq> []\<close> show "map_of (load_catalog lower rows) (row_key lower r) \<noteq> None"
    by (simp add: load_catalog_def fold_load_step_map_of Let_def)
next
  show "load_catalog lower (filter (\<lambda>r. row_key lower r \<noteq> []) rows) = load_catalog lower rows"
    by (simp add: load_catalog_def fold_load_step_skip)
next
  fix k
  show "map_of (load_catalog lower rows) k =
          (let same = filter (\<lambda>r. row_key lower r = k) rows
           in if k = [] \<or> same = [] then None else Some (last same))"
    by (simp add: load_catalog_def fold_load_step_map_of Let_def)
next
  show "distinct (map fst (load_catalog lower rows))"
    by (simp add: load_catalog_def fold_load_step_distinct)
qed

lemma row_key_green_hill: "row_key ascii_lower row_green_hill = lit ''greenhill''"
  by (simp add: row_key_def row_green_hill_def normalize_def or_else_def py_replace_def eval_str)

lemma row_key_blank: "row_key ascii_lower row_blank = []"
  by (simp add: row_key_def row_blank_def normalize_def or_else_def py_replace_def eval_str)

lemma row_key_green_hill_again: "row_key ascii_lower row_green_hill_again = lit ''greenhill''"
  by (simp add: row_key_def row_green_hill_again_def normalize_def or_else_def py_replace_def
      eval_str)

theorem load_catalog_last_write_wins_witness:
  "row_green_hill \<in> set [row_green_hill, row_blank, row_green_hill_again] \<and>
   row_key ascii_lower row_green_hill \<noteq> [] \<and>
   map_of (load_catalog ascii_lower [row_green_hill, row_blank, row_green_hill_again]) (row_key ascii_lower row_green_hill)
     \<noteq> None \<and>
   row_key ascii_lower row_blank = [] \<and>
   row_key ascii_lower row_green_hill_again = row_key ascii_lower row_green_hill \<and>
   map_of (load_catalog ascii_lower [row_green_hill, row_blank, row_green_hill_again]) (row_key ascii_lower row_green_hill)
     = Some row_green_hill_again \<and>
   map_of (load_catalog ascii_lower [row_green_hill, row_blank, row_green_hill_again]) (row_key ascii_lower row_blank)
     = None"
proof -
  note keys = row_key_green_hill row_key_blank row_key_green_hill_again
  have ne: "lit ''greenhill'' \<noteq> []"
    by (simp add: lit_def)
  note spec = load_catalog_last_write_wins
                [where lower = ascii_lower
                   and rows = "[row_green_hill, row_blank, row_green_hill_again]"]
  from spec have all: "\<forall>r\<in>set [row_green_hill, row_blank, row_green_hill_again].
      row_key ascii_lower r \<noteq> [] \<longrightarrow>
      map_of (load_catalog ascii_lower [row_green_hill, row_blank, row_green_hill_again]) (row_key ascii_lower r) \<noteq> None"
    by blast
  from spec have at: "map_of (load_catalog ascii_lower [row_green_hill, row_blank, row_green_hill_again]) k =
          (let same = filter (\<lambda>r. row_key ascii_lower r = k) [row_green_hill, row_blank, row_green_hill_again]
           in if k = [] \<or> same = [] then None else Some (last same))" for k
    by blast
  have last: "map_of (load_catalog ascii_lower [row_green_hill, row_blank, row_green_hill_again])
                (row_key ascii_lower row_green_hill) = Some row_green_hill_again"
    using ne by (simp add: at keys Let_def)
  have blank: "map_of (load_catalog ascii_lower [row_green_hill, row_blank, row_green_hill_again])
                (row_key ascii_lower row_blank) = None"
    by (simp add: at keys Let_def)
  from all have "map_of (load_catalog ascii_lower [row_green_hill, row_blank, row_green_hill_again])
                   (row_key ascii_lower row_green_hill) \<noteq> None"
    using ne by (simp add: keys)
  with last blank ne show ?thesis
    by (simp add: keys)
qed

section \<open>The dispatcher\<close>

lemma by_place_required_miss:
  "normalize lower (Some p) = [] \<or> map_of CAT (normalize lower (Some p)) = None \<Longrightarrow>
   by_place_required lower CAT p = Inl (jsonify (msg not_found_place))"
  by (auto simp: by_place_required_def Let_def)

lemma by_place_required_hit:
  "normalize lower (Some p) \<noteq> [] \<Longrightarrow> map_of CAT (normalize lower (Some p)) = Some r \<Longrightarrow>
   by_place_required lower CAT p = Inr r"
  by (simp add: by_place_required_def Let_def)

lemma with_place_miss:
  "normalize lower (Some p) = [] \<or> map_of CAT (normalize lower (Some p)) = None \<Longrightarrow>
   with_place lower CAT p rest = jsonify (msg not_found_place)"
  by (simp add: with_place_def by_place_required_miss)

lemma with_place_hit:
  "normalize lower (Some p) \<noteq> [] \<Longrightarrow> map_of CAT (normalize lower (Some p)) = Some r \<Longrightarrow>
   with_place lower CAT p rest = rest r"
  by (simp add: with_place_def by_place_required_hit)

lemma dispatch_by_place_miss:
  assumes "tag req \<in> set by_place_tags"
    and "normalize lower (Some (place_raw req)) = [] \<or>
         map_of CAT (normalize lower (Some (place_raw req))) = None"
  shows "dispatch lower CAT req = jsonify (msg not_found_place)"
  using assms(1) with_place_miss [OF assms(2)]
  by (auto simp: dispatch_def by_place_tags_def Let_def)

lemma fulfillment_authorized: "verify_secret cfg req \<Longrightarrow> fulfillment lower cfg CAT req = dispatch lower CAT req"
  by (simp add: fulfillment_def)

lemma status_jsonify: "status (jsonify m) = 200"
  by (simp add: jsonify_def)

lemma with_place_status:
  "(\<And>r. status (rest r) = 200) \<Longrightarrow> status (with_place lower CAT p rest) = 200"
  by (auto simp: with_place_def by_place_required_def Let_def status_jsonify
      split: sum.splits option.splits if_splits)

lemma handler_status:
  "status (getPlaceDetails r p) = 200" "status (getAttractions r p) = 200"
  "status (getActivities lower r p a) = 200" "status (getFood r p) = 200"
  "status (getTransport r p) = 200" "status (getStays r p) = 200"
  "status (getHandicrafts r p) = 200" "status (getOfficial r p) = 200"
  by (simp_all add: getPlaceDetails_def getAttractions_def getActivities_def getFood_def
      getTransport_def getStays_def getHandicrafts_def getOfficial_def Let_def status_jsonify)

lemma getRecommendations_status: "status (getRecommendations lower CAT s d) = 200"
  by (simp add: getRecommendations_def render_places_def Let_def status_jsonify)

lemma dispatch_status: "status (dispatch lower CAT req) = 200"
  unfolding dispatch_def Let_def
  by (simp add: with_place_status handler_status getRecommendations_status status_jsonify)

text \<open>
  C7. For each of the by-place tags (\<open>getPlaceDetails\<close>, \<open>getAttractions\<close>,
  \<open>getActivities\<close>, \<open>getFood\<close>, \<open>getTransport\<close>, \<open>getStays\<close>,
  \<open>getHandicrafts\<close>, \<open>getOfficial\<close>): when the place normalizes to the empty
  string, or its key is not in the catalog, the answer of an authorized request is
  the not-found message with status 200, whatever the catalog's rows hold.
\<close>

theorem by_place_tag_not_found:
  assumes "tag req \<in> set by_place_tags"
    and "verify_secret cfg req"
    and "normalize lower (Some (place_raw req)) = [] \<or>
         map_of CAT (normalize lower (Some (place_raw req))) = None"
  shows "fulfillment lower cfg CAT req =
           \<lparr>status = 200,
            messages = [msg (lit ''I couldn't find that place. Try another village or spelling.'')]\<rparr>"
  using dispatch_by_place_miss [OF assms(1) assms(3)] assms(2)
  by (simp add: fulfillment_def jsonify_def not_found_place_def)

lemma example_catalog_lookup:
  "map_of example_catalog k =
     (if k = lit ''greenhill'' then Some row_green_hill_again else None)"
  unfolding example_catalog_def load_catalog_def fold_load_step_map_of Let_def
  by (auto simp: row_key_green_hill row_key_blank row_key_green_hill_again lit_def)

theorem by_place_tag_not_found_witness:
  "tag req_food_nowhere \<in> set by_place_tags \<and>
   verify_secret cfg_default req_food_nowhere \<and>
   normalize ascii_lower (Some (place_raw req_food_nowhere)) = lit ''nowhere'' \<and>
   map_of example_catalog (lit ''nowhere'') = None \<and>
   fulfillment ascii_lower cfg_default example_catalog req_food_nowhere =
     \<lparr>status = 200,
      messages = [msg (lit ''I couldn't find that place. Try another village or spelling.'')]\<rparr>"
proof -
  have t: "tag req_food_nowhere \<in> set by_place_tags"
    by (simp add: req_food_nowhere_def by_place_tags_def)
  have v: "verify_secret cfg_default req_food_nowhere"
    by (simp add: verify_secret_def cfg_default_def)
  have p: "place_raw req_food_nowhere = lit ''Nowhere''"
    by (simp add: place_raw_def req_food_nowhere_def or_else_def lit_def)
  have n: "normalize ascii_lower (Some (place_raw req_food_nowhere)) = lit ''nowhere''"
    unfolding p by (simp add: normalize_def or_else_def py_replace_def eval_str)
  have m: "map_of example_catalog (lit ''nowhere'') = None"
    by (simp add: example_catalog_lookup) (simp add: lit_def)
  from m n have "normalize ascii_lower (Some (place_raw req_food_nowhere)) = [] \<or>
         map_of example_catalog (normalize ascii_lower (Some (place_raw req_food_nowhere))) = None"
    by simp
  from by_place_tag_not_found [OF t v this] t v n m show ?thesis
    by simp
qed

text \<open>
  C6. With no secret token configured \<open>verify_secret\<close> accepts every request. With a
  token configured it accepts exactly the requests that carry the configured header
  with the token as its value. A refused request, a request without the header among
  them, is answered with status 401 and the message \<open>"Unauthorized"\<close>, whatever the
  catalog and the body are; a request whose header equals the token is answered by the
  dispatcher, with status 200.
\<close>

theorem verify_secret_gate:
  "(SECRET_TOKEN cfg = [] \<longrightarrow> verify_secret cfg req) \<and>
   (SECRET_TOKEN cfg \<noteq> [] \<longrightarrow>
      verify_secret cfg req = (headers req (SECRET_HEADER cfg) = Some (SECRET_TOKEN cfg))) \<and>
   (\<not> verify_secret cfg req \<longrightarrow>
      fulfillment lower cfg CAT req = \<lparr>status = 401, messages = [msg (lit ''Unauthorized'')]\<rparr>) \<and>
   (SECRET_TOKEN cfg \<noteq> [] \<and> headers req (SECRET_HEADER cfg) = None \<longrightarrow>
      fulfillment lower cfg CAT req = \<lparr>status = 401, messages = [msg (lit ''Unauthorized'')]\<rparr>) \<and>
   (headers req (SECRET_HEADER cfg) = Some (SECRET_TOKEN cfg) \<longrightarrow>
      fulfillment lower cfg CAT req = dispatch lower CAT req \<and> status (fulfillment lower cfg CAT req) = 200)"
proof (intro conjI impI)
  show "verify_secret cfg req" if "SECRET_TOKEN cfg = []"
    using that by (simp add: verify_secret_def)
  show "verify_secret cfg req = (headers req (SECRET_HEADER cfg) = Some (SECRET_TOKEN cfg))"
    if "SECRET_TOKEN cfg \<noteq> []"
    using that by (auto simp: verify_secret_def split: option.splits)
  show "fulfillment lower cfg CAT req = \<lparr>status = 401, messages = [msg (lit ''Unauthorized'')]\<rparr>"
    if "\<not> verify_secret cfg req"
    using that by (simp add: fulfillment_def)
  show "fulfillment lower cfg CAT req = \<lparr>status = 401, messages = [msg (lit ''Unauthorized'')]\<rparr>"
    if "SECRET_TOKEN cfg \<noteq> [] \<and> headers req (SECRET_HEADER cfg) = None"
    using that by (auto simp: fulfillment_def verify_secret_def)
  assume h: "headers req (SECRET_HEADER cfg) = Some (SECRET_TOKEN cfg)"
  then have "verify_secret cfg req"
    by (simp add: verify_secret_def)
  then show "fulfillment lower cfg CAT req = dispatch lower CAT req"
    by (rule fulfillment_authorized)
  then show "status (fulfillment lower cfg CAT req) = 200"
    by (simp add: dispatch_status)
qed

theorem verify_secret_gate_witness:
  "SECRET_TOKEN cfg_default = [] \<and> verify_secret cfg_default req_food_nowhere \<and>
   SECRET_TOKEN cfg_secret = lit ''abc123'' \<and> SECRET_TOKEN cfg_secret \<noteq> [] \<and>
   headers req_food_nowhere (SECRET_HEADER cfg_secret) = None \<and>
   \<not> verify_secret cfg_secret req_food_nowhere \<and>
   fulfillment ascii_lower cfg_secret example_catalog req_food_nowhere =
     \<lparr>status = 401, messages = [msg (lit ''Unauthorized'')]\<rparr> \<and>
   headers req_food_nowhere_signed (SECRET_HEADER cfg_secret) = Some (SECRET_TOKEN cfg_secret) \<and>
   fulfillment ascii_lower cfg_secret example_catalog req_food_nowhere_signed =
     dispatch ascii_lower example_catalog req_food_nowhere_signed \<and>
   status (fulfillment ascii_lower cfg_secret example_catalog req_food_nowhere_signed) = 200"
proof -
  have a: "SECRET_TOKEN cfg_default = []"
    by (simp add: cfg_default_def)
  have b: "SECRET_TOKEN cfg_secret = lit ''abc123''" "SECRET_TOKEN cfg_secret \<noteq> []"
    by (simp_all add: cfg_secret_def lit_def)
  have c: "headers req_food_nowhere (SECRET_HEADER cfg_secret) = None"
    by (simp add: req_food_nowhere_def)
  have d: "headers req_food_nowhere_signed (SECRET_HEADER cfg_secret) = Some (SECRET_TOKEN cfg_secret)"
    by (simp add: req_food_nowhere_signed_def cfg_secret_def)
  from c have e: "headers req_food_nowhere (SECRET_HEADER cfg_secret) \<noteq> Some (SECRET_TOKEN cfg_secret)"
    by simp
  show ?thesis
    using verify_secret_gate
        [where lower = ascii_lower and cfg = cfg_default and req = req_food_nowhere
           and CAT = example_catalog]
      verify_secret_gate
        [where lower = ascii_lower and cfg = cfg_secret and req = req_food_nowhere
           and CAT = example_catalog]
      verify_secret_gate
        [where lower = ascii_lower and cfg = cfg_secret and req = req_food_nowhere_signed
           and CAT = example_catalog]
      a b c d e
    by blast
qed


section \<open>Recommendations\<close>

lemma py_split_append_sep: "py_split sep (a @ sep # b) = py_split sep a @ py_split sep b"
proof (induction a)
  case Nil
  show ?case by simp
next
  case (Cons c a)
  obtain w ws where "py_split sep a = w # ws"
    using py_split_not_Nil [of sep a] by (cases "py_split sep a") auto
  with Cons show ?case by simp
qed

lemma py_split_join:
  "xs \<noteq> [] \<Longrightarrow> \<forall>x\<in>set xs. sep \<notin> set x \<Longrightarrow> py_split sep (py_join [sep] xs) = xs"
proof (induction xs)
  case Nil
  then show ?case by simp
next
  case (Cons x xs)
  show ?case
  proof (cases "xs = []")
    case True
    with Cons.prems show ?thesis by (simp add: py_split_no_sep_id)
  next
    case False
    with Cons show ?thesis
      by (simp add: py_join_Cons py_split_append_sep py_split_no_sep_id)
  qed
qed

lemma response_text_msg: "response_text \<lparr>status = n, messages = [msg t]\<rparr> = t"
  by (simp add: response_text_def msg_def)

lemma filter_all: "\<forall>x\<in>set xs. P x \<Longrightarrow> filter P xs = xs"
  by (simp add: filter_id_conv)

text \<open>
  The lines of the rendered list that begin with the bullet marker are the rendered
  names, where neither the scope nor a rendered name contains a newline.
\<close>

lemma bullet_lines_rendered:
  assumes ne: "ns \<noteq> []"
    and scope: "10 \<notin> set scope"
    and names: "\<forall>n\<in>set ns. 10 \<notin> set n"
  shows "bullet_lines (lit ''Recommended places in '' @ scope @ lit '':'' @ [10]
                         @ py_join [10] (map (\<lambda>n. [8226, 32] @ n) ns))
           = map (\<lambda>n. [8226, 32] @ n) ns"
proof -
  let ?items = "map (\<lambda>n. [8226, 32] @ n) ns"
  let ?title = "lit ''Recommended places in '' @ scope @ lit '':''"
  have items_ne: "?items \<noteq> []"
    using ne by simp
  have items_nl: "\<forall>x\<in>set ?items. (10::nat) \<notin> set x"
    using names by auto
  have title_nl: "10 \<notin> set ?title"
    using scope by (simp add: lit_def)
  have title_nb: "\<not> prefix bullet ?title"
    by (simp add: lit_def bullet_def)
  have "py_split 10 (?title @ 10 # py_join [10] ?items) = ?title # ?items"
    using py_split_join [OF items_ne items_nl] py_split_no_sep_id [OF title_nl]
    by (simp only: py_split_append_sep) simp
  then have "bullet_lines (?title @ [10] @ py_join [10] ?items) = filter (prefix bullet) ?items"
    using title_nb by (simp add: bullet_lines_def newline_def)
  also have "\<dots> = ?items"
    by (rule filter_all) (auto simp: bullet_def)
  finally show ?thesis
    by simp
qed

lemma dispatch_getRecommendations:
  "tag req = lit ''getRecommendations'' \<Longrightarrow>
   dispatch lower CAT req = getRecommendations lower CAT (state_raw req) (district_raw req)"
  by (simp add: dispatch_def Let_def lit_def)

text \<open>What \<open>getRecommendations\<close> answers, written out.\<close>

lemma getRecommendations_text:
  "getRecommendations lower CAT s d =
     (let scope = (if d \<noteq> [] then d else s);
          column = (if d \<noteq> [] then lit ''District'' else lit ''State'');
          cands = filter (\<lambda>r. normalize lower (r column) = normalize lower (Some scope))
                    (map snd CAT);
          names = map (\<lambda>r. case r (lit ''Village Name'') of None \<Rightarrow> lit ''None'' | Some n \<Rightarrow> n)
                    cands;
          shown = map (\<lambda>n. [8226, 32] @ n) (take 10 names)
      in if scope = []
         then \<lparr>status = 200,
               messages = [msg (lit ''Tell me a state or district to recommend places.'')]\<rparr>
         else if cands = []
         then \<lparr>status = 200, messages = [msg (lit ''No places found for '' @ scope @ lit ''.'')]\<rparr>
         else \<lparr>status = 200,
               messages = [msg (lit ''Recommended places in '' @ scope @ lit '':'' @ [10]
                                  @ py_join [10] shown)]\<rparr>)"
  by (simp add: getRecommendations_def list_places_by_def render_places_def jsonify_def
      prompt_scope_def fmt_def bullet_def newline_def Let_def take_map comp_def)

lemma update_fresh: "k \<notin> fst ` set al \<Longrightarrow> AList.update k v al = al @ [(k, v)]"
  by (induction al) auto

lemma load_step_fresh:
  "row_key lower r \<noteq> [] \<Longrightarrow> row_key lower r \<notin> fst ` set acc \<Longrightarrow>
   load_step lower r acc = acc @ [(row_key lower r, r)]"
  by (simp add: load_step_def Let_def row_key_def update_fresh)

lemma fold_load_step_fresh:
  "distinct (map (row_key lower) rows) \<Longrightarrow> [] \<notin> set (map (row_key lower) rows) \<Longrightarrow>
   set (map (row_key lower) rows) \<inter> fst ` set acc = {} \<Longrightarrow>
   fold (load_step lower) rows acc = acc @ map (\<lambda>r. (row_key lower r, r)) rows"
proof (induction rows arbitrary: acc)
  case Nil
  show ?case by simp
next
  case (Cons r rows)
  from Cons.prems have step: "load_step lower r acc = acc @ [(row_key lower r, r)]"
    by (intro load_step_fresh) auto
  from Cons.prems
  have "set (map (row_key lower) rows) \<inter> fst ` set (acc @ [(row_key lower r, r)]) = {}"
    by auto
  with Cons.prems Cons.IH [of "acc @ [(row_key lower r, r)]"] step show ?case
    by simp
qed

text \<open>Rows with distinct keys, none empty, are the catalog's records in the order of the file.\<close>

lemma load_catalog_fresh:
  assumes "distinct (map (row_key lower) rows)" and "[] \<notin> set (map (row_key lower) rows)"
  shows "map snd (load_catalog lower rows) = rows"
proof -
  have "load_catalog lower rows = map (\<lambda>r. (row_key lower r, r)) rows"
    using fold_load_step_fresh [of lower rows "[]"] assms by (simp add: load_catalog_def)
  moreover have "map snd (map (\<lambda>r. (row_key lower r, r)) rs) = rs" for rs
    by (induction rs) auto
  ultimately show ?thesis
    by simp
qed

lemma kullu_catalog_rows: "map snd kullu_catalog = map kullu_row kullu_names"
proof -
  have keys: "map (row_key ascii_lower) (map kullu_row kullu_names) =
     [lit ''villagea'', lit ''villageb'', lit ''villagec'', lit ''villaged'',
      lit ''villagee'', lit ''villagef'', lit ''villageg'', lit ''villageh'',
      lit ''villagei'', lit ''villagej'', lit ''villagek'', lit ''villagel'']"
    by (simp add: kullu_names_def kullu_row_def row_key_def normalize_def or_else_def
        py_replace_def eval_str)
  have "distinct (map (row_key ascii_lower) (map kullu_row kullu_names))"
    "[] \<notin> set (map (row_key ascii_lower) (map kullu_row kullu_names))"
    unfolding keys by (simp_all add: lit_def)
  then show ?thesis
    unfolding kullu_catalog_def by (rule load_catalog_fresh)
qed

lemma kullu_catalog_two_lines_rows:
  "map snd kullu_catalog_two_lines = map kullu_row kullu_names_two_lines"
proof -
  have keys: "map (row_key ascii_lower) (map kullu_row kullu_names_two_lines) =
     [lit ''villagea'' @ [10, 8226] @ lit ''annex'', lit ''villageb'', lit ''villagec'',
      lit ''villaged'', lit ''villagee'', lit ''villagef'', lit ''villageg'', lit ''villageh'',
      lit ''villagei'', lit ''villagej'', lit ''villagek'', lit ''villagel'']"
    by (simp add: kullu_names_two_lines_def kullu_row_def row_key_def normalize_def or_else_def
        py_replace_def eval_str)
  have "distinct (map (row_key ascii_lower) (map kullu_row kullu_names_two_lines))"
    "[] \<notin> set (map (row_key ascii_lower) (map kullu_row kullu_names_two_lines))"
    unfolding keys by (simp_all add: lit_def)
  then show ?thesis
    unfolding kullu_catalog_two_lines_def by (rule load_catalog_fresh)
qed

lemma kullu_rows_match:
  "filter (\<lambda>r. normalize lower (r (lit ''District'')) = normalize lower (Some (lit ''Kullu'')))
     (map kullu_row ns) = map kullu_row ns"
  by (rule filter_all) (auto simp: kullu_row_def lit_def)

lemma kullu_rows_names:
  "map (\<lambda>r. case r (lit ''Village Name'') of None \<Rightarrow> lit ''None'' | Some n \<Rightarrow> n)
     (map kullu_row ns) = ns"
  by (induction ns) (auto simp: kullu_row_def lit_def)

lemma req_recommend_kullu_facts:
  "tag req_recommend_kullu = lit ''getRecommendations''"
  "verify_secret cfg_default req_recommend_kullu"
  "district_raw req_recommend_kullu = lit ''Kullu''"
  by (simp_all add: req_recommend_kullu_def verify_secret_def cfg_default_def district_raw_def
      or_else_def lit_def)

lemma kullu_response:
  assumes "map snd CAT = map kullu_row ns" and "ns \<noteq> []"
  shows "fulfillment lower cfg_default CAT req_recommend_kullu =
           \<lparr>status = 200,
            messages = [msg (lit ''Recommended places in Kullu:'' @ [10]
                               @ py_join [10] (map (\<lambda>n. [8226, 32] @ n) (take 10 ns)))]\<rparr>"
proof -
  have ne: "lit ''Kullu'' \<noteq> []"
    by (simp add: lit_def)
  have title: "lit ''Recommended places in '' @ lit ''Kullu'' @ lit '':'' @ rest
                 = lit ''Recommended places in Kullu:'' @ rest" for rest
    by (simp add: lit_def)
  have app: "(@) [8226, 32::nat] = (\<lambda>n. 8226 # 32 # n)"
    by (rule ext) simp
  have nn: "(lit ''Kullu'' = []) = False"
    by (simp add: lit_def)
  show ?thesis
    unfolding fulfillment_authorized [OF req_recommend_kullu_facts(2)]
      dispatch_getRecommendations [OF req_recommend_kullu_facts(1)]
      getRecommendations_text req_recommend_kullu_facts(3) Let_def
    apply (simp only: nn simp_thms if_True if_False assms(1) kullu_rows_match kullu_rows_names)
    using assms(2) by (simp add: title app)
qed

text \<open>
  C4 as the specification has it: twelve matching records give exactly ten bullet lines.
  The names are rendered as they are in the file: twelve villages of Kullu, the first with
  a newline and a bullet in its name, give eleven lines that begin with the bullet
  marker.
\<close>

theorem recommendations_eleven_bullet_lines:
  "district_raw req_recommend_kullu = lit ''Kullu'' \<and>
   length (filter (\<lambda>r. normalize ascii_lower (r (lit ''District''))
                          = normalize ascii_lower (Some (lit ''Kullu'')))
             (map snd kullu_catalog_two_lines)) = 12 \<and>
   length (bullet_lines (response_text
             (fulfillment ascii_lower cfg_default kullu_catalog_two_lines req_recommend_kullu)))
     = 11"
proof -
  have ne: "kullu_names_two_lines \<noteq> []"
    by (simp add: kullu_names_two_lines_def)
  have "length (filter (\<lambda>r. normalize ascii_lower (r (lit ''District''))
                          = normalize ascii_lower (Some (lit ''Kullu'')))
             (map snd kullu_catalog_two_lines)) = 12"
    unfolding kullu_catalog_two_lines_rows kullu_rows_match
    by (simp add: kullu_names_two_lines_def)
  moreover have "length (bullet_lines (response_text
             (fulfillment ascii_lower cfg_default kullu_catalog_two_lines req_recommend_kullu)))
     = 11"
    unfolding kullu_response [OF kullu_catalog_two_lines_rows ne] response_text_msg
    by (simp add: kullu_names_two_lines_def bullet_lines_def bullet_def newline_def lit_def)
  ultimately show ?thesis
    using req_recommend_kullu_facts(3) by simp
qed

text \<open>
  C4, amended. For \<open>getRecommendations\<close> the district takes precedence over the state:
  with a district the candidates are the records of the catalog whose normalized
  district equals the normalized query, otherwise with a state those whose normalized
  state does, and with neither the answer is the prompt
  \<open>"Tell me a state or district to recommend places."\<close>. No candidate gives
  \<open>"No places found for {scope}."\<close>; otherwise the answer is the title
  \<open>"Recommended places in {scope}:"\<close> and, joined by newlines, the names of the first
  ten candidates in the order of the catalog, each after the bullet marker and a space:
  twelve candidates give ten such items. Where neither the scope nor a shown name
  contains a newline, the items are exactly the lines of the answer that begin with the
  bullet marker.
\<close>

theorem recommendations_scope_and_top_ten:
  assumes "tag req = lit ''getRecommendations''" and "verify_secret cfg req"
  shows
    "(let scope = (if district_raw req \<noteq> [] then district_raw req else state_raw req);
          column = (if district_raw req \<noteq> [] then lit ''District'' else lit ''State'');
          cands = filter (\<lambda>r. normalize lower (r column) = normalize lower (Some scope))
                    (map snd CAT);
          names = map (\<lambda>r. case r (lit ''Village Name'') of None \<Rightarrow> lit ''None'' | Some n \<Rightarrow> n)
                    cands;
          shown = map (\<lambda>n. [8226, 32] @ n) (take 10 names);
          res = fulfillment lower cfg CAT req
      in (scope = [] \<longrightarrow>
            res = \<lparr>status = 200,
                   messages = [msg (lit ''Tell me a state or district to recommend places.'')]\<rparr>) \<and>
         (scope \<noteq> [] \<and> cands = [] \<longrightarrow>
            res = \<lparr>status = 200,
                   messages = [msg (lit ''No places found for '' @ scope @ lit ''.'')]\<rparr>) \<and>
         (scope \<noteq> [] \<and> cands \<noteq> [] \<longrightarrow>
            res = \<lparr>status = 200,
                   messages = [msg (lit ''Recommended places in '' @ scope @ lit '':'' @ [10]
                                      @ py_join [10] shown)]\<rparr> \<and>
            length shown = min 10 (length cands) \<and>
            (length cands = 12 \<longrightarrow> length shown = 10) \<and>
            (10 \<notin> set scope \<and> (\<forall>n\<in>set (take 10 names). 10 \<notin> set n) \<longrightarrow>
               bullet_lines (response_text res) = shown)))"
proof -
  define scope where "scope = (if district_raw req \<noteq> [] then district_raw req else state_raw req)"
  define column where
    "column = (if district_raw req \<noteq> [] then lit ''District'' else lit ''State'')"
  define cands where
    "cands = filter (\<lambda>r. normalize lower (r column) = normalize lower (Some scope)) (map snd CAT)"
  define names where
    "names = map (\<lambda>r. case r (lit ''Village Name'') of None \<Rightarrow> lit ''None'' | Some n \<Rightarrow> n) cands"
  define shown where "shown = map (\<lambda>n. [8226, 32] @ n) (take 10 names)"
  define res where "res = fulfillment lower cfg CAT req"
  have res: "res =
     (if scope = []
      then \<lparr>status = 200,
            messages = [msg (lit ''Tell me a state or district to recommend places.'')]\<rparr>
      else if cands = []
      then \<lparr>status = 200, messages = [msg (lit ''No places found for '' @ scope @ lit ''.'')]\<rparr>
      else \<lparr>status = 200,
            messages = [msg (lit ''Recommended places in '' @ scope @ lit '':'' @ [10]
                               @ py_join [10] shown)]\<rparr>)"
    unfolding res_def scope_def column_def cands_def names_def shown_def
      fulfillment_authorized [OF assms(2)] dispatch_getRecommendations [OF assms(1)]
      getRecommendations_text Let_def ..
  have len: "length shown = min 10 (length cands)"
    by (simp add: shown_def names_def min.commute)
  have lines: "bullet_lines (response_text res) = shown"
    if "scope \<noteq> []" "cands \<noteq> []" "10 \<notin> set scope" "\<forall>n\<in>set (take 10 names). 10 \<notin> set n"
  proof -
    have "take 10 names \<noteq> []"
      using that(2) by (cases cands) (auto simp: names_def)
    from bullet_lines_rendered [OF this that(3) that(4)] that(1,2) show ?thesis
      by (simp add: res response_text_msg shown_def)
  qed
  have "(scope = [] \<longrightarrow>
            res = \<lparr>status = 200,
                   messages = [msg (lit ''Tell me a state or district to recommend places.'')]\<rparr>) \<and>
         (scope \<noteq> [] \<and> cands = [] \<longrightarrow>
            res = \<lparr>status = 200,
                   messages = [msg (lit ''No places found for '' @ scope @ lit ''.'')]\<rparr>) \<and>
         (scope \<noteq> [] \<and> cands \<noteq> [] \<longrightarrow>
            res = \<lparr>status = 200,
                   messages = [msg (lit ''Recommended places in '' @ scope @ lit '':'' @ [10]
                                      @ py_join [10] shown)]\<rparr> \<and>
            length shown = min 10 (length cands) \<and>
            (length cands = 12 \<longrightarrow> length shown = 10) \<and>
            (10 \<notin> set scope \<and> (\<forall>n\<in>set (take 10 names). 10 \<notin> set n) \<longrightarrow>
               bullet_lines (response_text res) = shown))"
    using res len lines by auto
  then show ?thesis
    unfolding Let_def scope_def column_def cands_def names_def shown_def res_def .
qed

theorem recommendations_scope_and_top_ten_witness:
  "tag req_recommend_kullu = lit ''getRecommendations'' \<and>
   verify_secret cfg_default req_recommend_kullu \<and>
   district_raw req_recommend_kullu = lit ''Kullu'' \<and>
   length (filter (\<lambda>r. normalize ascii_lower (r (lit ''District''))
                          = normalize ascii_lower (Some (lit ''Kullu'')))
             (map snd kullu_catalog)) = 12 \<and>
   fulfillment ascii_lower cfg_default kullu_catalog req_recommend_kullu =
     \<lparr>status = 200,
      messages = [msg (lit ''Recommended places in Kullu:''
                       @ [10, 8226, 32] @ lit ''Village A'' @ [10, 8226, 32] @ lit ''Village B''
                       @ [10, 8226, 32] @ lit ''Village C'' @ [10, 8226, 32] @ lit ''Village D''
                       @ [10, 8226, 32] @ lit ''Village E'' @ [10, 8226, 32] @ lit ''Village F''
                       @ [10, 8226, 32] @ lit ''Village G'' @ [10, 8226, 32] @ lit ''Village H''
                       @ [10, 8226, 32] @ lit ''Village I'' @ [10, 8226, 32] @ lit ''Village J'')]\<rparr> \<and>
   length (bullet_lines (response_text
             (fulfillment ascii_lower cfg_default kullu_catalog req_recommend_kullu))) = 10"
proof -
  note t = req_recommend_kullu_facts(1) and v = req_recommend_kullu_facts(2)
    and d = req_recommend_kullu_facts(3)
  have sc: "(if district_raw req_recommend_kullu \<noteq> [] then district_raw req_recommend_kullu
             else state_raw req_recommend_kullu) = lit ''Kullu''"
    by (simp add: d lit_def)
  have col: "(if district_raw req_recommend_kullu \<noteq> [] then lit ''District'' else lit ''State'')
               = lit ''District''"
    by (simp add: d lit_def)
  have c: "filter (\<lambda>r. normalize ascii_lower (r (lit ''District''))
                          = normalize ascii_lower (Some (lit ''Kullu'')))
             (map snd kullu_catalog) = map kullu_row kullu_names"
    unfolding kullu_catalog_rows by (rule kullu_rows_match)
  note spec = recommendations_scope_and_top_ten
                [OF t v, where lower = ascii_lower and CAT = kullu_catalog,
                 unfolded Let_def sc col c kullu_rows_names]
  have ne: "lit ''Kullu'' \<noteq> []" "map kullu_row kullu_names \<noteq> []"
    by (simp_all add: lit_def kullu_names_def)
  have nl: "10 \<notin> set (lit ''Kullu'')" "\<forall>n\<in>set (take 10 kullu_names). 10 \<notin> set n"
    by (simp_all add: lit_def kullu_names_def)
  have n12: "length (map kullu_row kullu_names) = 12"
    by (simp add: kullu_names_def)
  from spec ne nl n12
  have res: "fulfillment ascii_lower cfg_default kullu_catalog req_recommend_kullu =
          \<lparr>status = 200,
           messages = [msg (lit ''Recommended places in '' @ lit ''Kullu'' @ lit '':'' @ [10]
                              @ py_join [10] (map (\<lambda>n. [8226, 32] @ n) (take 10 kullu_names)))]\<rparr>"
    and ten: "length (map (\<lambda>n. [8226, 32] @ n) (take 10 kullu_names)) = 10"
    and lines: "bullet_lines (response_text
                  (fulfillment ascii_lower cfg_default kullu_catalog req_recommend_kullu))
                  = map (\<lambda>n. [8226, 32] @ n) (take 10 kullu_names)"
    by blast+
  have rendered: "lit ''Recommended places in '' @ lit ''Kullu'' @ lit '':'' @ [10]
                @ py_join [10] (map (\<lambda>n. [8226, 32] @ n) (take 10 kullu_names))
              = lit ''Recommended places in Kullu:''
                       @ [10, 8226, 32] @ lit ''Village A'' @ [10, 8226, 32] @ lit ''Village B''
                       @ [10, 8226, 32] @ lit ''Village C'' @ [10, 8226, 32] @ lit ''Village D''
                       @ [10, 8226, 32] @ lit ''Village E'' @ [10, 8226, 32] @ lit ''Village F''
                       @ [10, 8226, 32] @ lit ''Village G'' @ [10, 8226, 32] @ lit ''Village H''
                       @ [10, 8226, 32] @ lit ''Village I'' @ [10, 8226, 32] @ lit ''Village J''"
    by (simp add: kullu_names_def lit_def)
  from res rendered lines ten t v d c n12 show ?thesis
    by simp
qed

section \<open>Activities of a place\<close>





lemma example_keys_any_lower:
  assumes "lower_on_ascii lower"
  shows "normalize lower (Some (lit ''Green Hill'')) = lit ''greenhill''"
    and "normalize lower (Some (lit ''green hill'')) = lit ''greenhill''"
  by (simp_all add: normalize_def or_else_def py_replace_def lower_ascii [OF assms] eval_str)

lemma single_row_lookup:
  assumes "row_key lower r = k" and "k \<noteq> []"
  shows "map_of (load_catalog lower [r]) k = Some r"
  using assms by (simp add: load_catalog_def load_step_map_of)




section \<open>Details of a place\<close>

lemma dispatch_getPlaceDetails:
  "tag req = lit ''getPlaceDetails'' \<Longrightarrow>
   dispatch lower CAT req =
     with_place lower CAT (place_raw req) (\<lambda>r. getPlaceDetails r (place_raw req))"
  by (simp add: dispatch_def Let_def)

lemma getPlaceDetails_no_region:
  "getPlaceDetails row_no_region (lit ''Green Hill'') =
     \<lparr>status = 200,
      messages = [msg (lit ''Green Hill (, )'' @ [10, 10] @ lit ''A quiet village.'')]\<rparr>"
  by (simp add: getPlaceDetails_def pick_def row_no_region_def or_else_def Let_def jsonify_def
      default_text_def eval_str)

text \<open>
  C2, at a record whose district and state are both blank: the header of
  \<open>getPlaceDetails\<close> is not the bare name. \<open>strip(", ")\<close> removes commas and spaces
  from the two ends only, and the header ends with the closing parenthesis, so the
  empty parentheses and the comma stay: \<open>"Green Hill (, )"\<close>.
\<close>

theorem getPlaceDetails_blank_region_keeps_parentheses:
  assumes "lower_on_ascii lower"
  shows "fulfillment lower cfg_default (load_catalog lower [row_no_region])
           req_details_green_hill =
           \<lparr>status = 200,
            messages = [msg (lit ''Green Hill (, )'' @ [10, 10] @ lit ''A quiet village.'')]\<rparr>"
proof -
  have t: "tag req_details_green_hill = lit ''getPlaceDetails''"
    by (simp add: req_details_green_hill_def)
  have v: "verify_secret cfg_default req_details_green_hill"
    by (simp add: verify_secret_def cfg_default_def)
  have p: "place_raw req_details_green_hill = lit ''Green Hill''"
    by (simp add: place_raw_def req_details_green_hill_def or_else_def lit_def)
  have k: "normalize lower (Some (place_raw req_details_green_hill)) = lit ''greenhill''"
    unfolding p using assms by (rule example_keys_any_lower)
  have kne: "lit ''greenhill'' \<noteq> []"
    by (simp add: lit_def)
  have "row_no_region (FIELD_MAP Name) = Some (lit ''Green Hill'')"
    by (simp add: row_no_region_def lit_def)
  then have "row_key lower row_no_region = lit ''greenhill''"
    unfolding row_key_def using assms by (simp only: example_keys_any_lower)
  then have m: "map_of (load_catalog lower [row_no_region]) (lit ''greenhill'')
                  = Some row_no_region"
    using kne by (rule single_row_lookup)
  have "fulfillment lower cfg_default (load_catalog lower [row_no_region])
          req_details_green_hill
          = getPlaceDetails row_no_region (place_raw req_details_green_hill)"
    using t v k kne m
    by (simp add: fulfillment_authorized dispatch_getPlaceDetails with_place_hit)
  then show ?thesis
    unfolding p getPlaceDetails_no_region .
qed

theorem getPlaceDetails_blank_region_keeps_parentheses_witness:
  "row_no_region (lit ''State'') = Some [] \<and> row_no_region (lit ''District'') = Some [] \<and>
   fulfillment ascii_lower cfg_default (load_catalog ascii_lower [row_no_region])
     req_details_green_hill =
     \<lparr>status = 200,
      messages = [msg (lit ''Green Hill (, )'' @ [10, 10] @ lit ''A quiet village.'')]\<rparr>"
  using getPlaceDetails_blank_region_keeps_parentheses [OF ascii_lower_on_ascii]
  by (simp add: row_no_region_def lit_def)

end
